theory Spec2Isabelle
  imports Main "HOL-Library.Multiset"
begin

section \<open>JavaScript strings and numerals\<close>

text \<open>
  Strings are lists of characters. The booking form only ever reads numerals written with
  the ASCII digits, so \<open>Number\<close> is modelled on them: a string of decimal digits is its
  value (the empty string is 0, as in JavaScript) and every other string is \<open>None\<close>, the
  model's NaN. Numerals written with a sign, a fraction, an exponent, a radix prefix or
  blanks are outside the model.
\<close>

definition isDigit :: "char \<Rightarrow> bool" where
  "isDigit c = (48 \<le> (of_char c :: nat) \<and> (of_char c :: nat) \<le> 57)"

definition digitVal :: "char \<Rightarrow> nat" where
  "digitVal c = (of_char c :: nat) - 48"

definition digitChar :: "nat \<Rightarrow> char" where
  "digitChar d = char_of (48 + d)"

definition Number :: "string \<Rightarrow> nat option" where
  "Number s = (if list_all isDigit s
               then Some (foldl (\<lambda>n c. 10 * n + digitVal c) 0 s)
               else None)"

text \<open>\<open>String(n)\<close> for a non-negative integer: its decimal digits, most significant first.\<close>

fun String_nat :: "nat \<Rightarrow> string" where
  "String_nat n = (if n < 10 then [digitChar n]
                   else String_nat (n div 10) @ [digitChar (n mod 10)])"

declare String_nat.simps [simp del]

text \<open>\<open>String(i)\<close> for any integer: a minus sign before the digits of a negative one.\<close>

definition String_int :: "int \<Rightarrow> string" where
  "String_int i = (if i < 0 then CHR ''-'' # String_nat (nat (- i)) else String_nat (nat i))"

text \<open>\<open>s.padStart(n, c)\<close> with a one-character filler.\<close>

definition padStart :: "nat \<Rightarrow> char \<Rightarrow> string \<Rightarrow> string" where
  "padStart n c s = replicate (n - length s) c @ s"

text \<open>\<open>s.split(sep)\<close> with a one-character separator: never empty, \<open>"".split(":")\<close> is \<open>[""]\<close>.\<close>

fun split :: "char \<Rightarrow> string \<Rightarrow> string list" where
  "split sep [] = [[]]"
| "split sep (c # cs) =
     (if c = sep then [] # split sep cs
      else (case split sep cs of
              [] \<Rightarrow> [[c]]
            | p # ps \<Rightarrow> (c # p) # ps))"

text \<open>
  \<open>const [hours, minutes] = time.split(':').map(Number)\<close>: the first two pieces, read as
  numbers. A missing piece is \<open>undefined\<close> and a piece that is no numeral is NaN; either
  makes every later arithmetic result NaN, which is \<open>None\<close> here.
\<close>

definition hoursMinutes :: "string \<Rightarrow> (nat \<times> nat) option" where
  "hoursMinutes time =
     (case map Number (split CHR '':'' time) of
        Some hours # Some minutes # _ \<Rightarrow> Some (hours, minutes)
      | _ \<Rightarrow> None)"

section \<open>The time-slot generator\<close>

text \<open>The template literal that formats one slot as \<open>HH:mm\<close>.\<close>

definition slotText :: "nat \<Rightarrow> nat \<Rightarrow> string" where
  "slotText hours mins =
     padStart 2 CHR ''0'' (String_nat hours) @ '':'' @ padStart 2 CHR ''0'' (String_nat mins)"

text \<open>
  The \<open>for\<close> loop of \<open>generateTimeSlots\<close>: \<open>slots\<close> is the array built so far,
  \<open>minutes\<close> the loop variable.
\<close>

function slotLoop :: "string list \<Rightarrow> nat \<Rightarrow> nat \<Rightarrow> string list" where
  "slotLoop slots minutes endMinutes =
     (if minutes \<le> endMinutes
      then slotLoop (slots @ [slotText (minutes div 60) (minutes mod 60)]) (minutes + 60) endMinutes
      else slots)"
  by pat_completeness auto
termination
  by (relation "measure (\<lambda>(slots, minutes, endMinutes). Suc endMinutes - minutes)") auto

declare slotLoop.simps [simp del]

text \<open>
  A bound that is NaN makes the loop condition false at once, so no slot is produced.
\<close>

definition generateTimeSlots :: "string \<Rightarrow> string \<Rightarrow> string list" where
  "generateTimeSlots startTime endTime =
     (case hoursMinutes startTime of
        None \<Rightarrow> []
      | Some (startHour, startMinute) \<Rightarrow>
          (case hoursMinutes endTime of
             None \<Rightarrow> []
           | Some (endHour, endMinute) \<Rightarrow>
               slotLoop [] (startHour * 60 + startMinute) (endHour * 60 + endMinute)))"

text \<open>The number of slots the loop emits; used to state what the generator computes.\<close>

definition slotCount :: "nat \<Rightarrow> nat \<Rightarrow> nat" where
  "slotCount minutes endMinutes =
     (if minutes \<le> endMinutes then Suc ((endMinutes - minutes) div 60) else 0)"

text \<open>The time of day a slot text denotes, in minutes after midnight.\<close>

definition slotMinutes :: "string \<Rightarrow> nat option" where
  "slotMinutes time =
     (case hoursMinutes time of None \<Rightarrow> None | Some (hours, minutes) \<Rightarrow> Some (hours * 60 + minutes))"

section \<open>Dates\<close>

text \<open>
  A \<open>Date\<close> is its time value: integer milliseconds since the epoch (\<open>getTime()\<close>).
  An invalid date arises only from a time text that does not parse, and is treated where
  that happens. Local time is a fixed offset \<open>tz\<close> (milliseconds east of
  UTC) from UTC, a parameter of every function that reads or sets local fields; changes of
  the offset during the year (daylight saving) are not modelled.
\<close>

type_synonym instant = int

definition msPerDay :: int where
  "msPerDay = 86400000"

text \<open>The local calendar day of an instant, counted from 1 January 1970.\<close>

definition localDay :: "int \<Rightarrow> instant \<Rightarrow> int" where
  "localDay tz t = (t + tz) div msPerDay"

text \<open>\<open>d.setHours(hours, minutes, seconds, ms)\<close>: same local day, new time of day.\<close>

definition setHours :: "int \<Rightarrow> instant \<Rightarrow> int \<Rightarrow> int \<Rightarrow> int \<Rightarrow> int \<Rightarrow> instant" where
  "setHours tz t hours minutes seconds ms =
     t - (t + tz) mod msPerDay + hours * 3600000 + minutes * 60000 + seconds * 1000 + ms"

text \<open>\<open>d.getDay()\<close>: 0 is Sunday; 1 January 1970 was a Thursday.\<close>

definition getDay :: "int \<Rightarrow> instant \<Rightarrow> int" where
  "getDay tz t = (localDay tz t + 4) mod 7"

text \<open>
  Year, month (1 to 12) and day of the month of a day number in the proleptic Gregorian
  calendar, computed era by era (an era is 400 years, 146097 days, starting on 1 March).
\<close>

definition civil :: "int \<Rightarrow> int \<times> int \<times> int" where
  "civil days =
     (let z = days + 719468;
          era = z div 146097;
          doe = z - era * 146097;
          yoe = (doe - doe div 1460 + doe div 36524 - doe div 146096) div 365;
          doy = doe - (365 * yoe + yoe div 4 - yoe div 100);
          mp = (5 * doy + 2) div 153;
          d = doy - (153 * mp + 2) div 5 + 1;
          m = (if mp < 10 then mp + 3 else mp - 9);
          y = yoe + era * 400 + (if m \<le> 2 then 1 else 0)
      in (y, m, d))"

definition getFullYear :: "int \<Rightarrow> instant \<Rightarrow> int" where
  "getFullYear tz t = fst (civil (localDay tz t))"

definition getMonth :: "int \<Rightarrow> instant \<Rightarrow> int" where
  "getMonth tz t = fst (snd (civil (localDay tz t))) - 1"

definition getDate :: "int \<Rightarrow> instant \<Rightarrow> int" where
  "getDate tz t = snd (snd (civil (localDay tz t)))"

definition formatDateToYYYYMMDD :: "int \<Rightarrow> instant \<Rightarrow> string" where
  "formatDateToYYYYMMDD tz date =
     (let year = getFullYear tz date;
          month = padStart 2 CHR ''0'' (String_int (getMonth tz date + 1));
          day = padStart 2 CHR ''0'' (String_int (getDate tz date))
      in String_int year @ ''-'' @ month @ ''-'' @ day)"

section \<open>Settings and the state of the booking form\<close>

record settings =
  firstDayOfWeek :: int
  disabledWeekdays :: "int list"
  disabledDates :: "string list"
  minIntervalHours :: int
  workStartTime :: string
  workEndTime :: string
  maxBookingsPerDay :: "int option"
  sendSMSEnabled :: bool

record bookingFormData =
  firstName :: string
  lastName :: string
  phone :: string
  address :: string
  city :: string
  operatingSystem :: string
  comments :: string
  appointmentDate :: "instant option"
  appointmentTime :: string

text \<open>A row of the \<open>bookings\<close> table, which lives in the external store.\<close>

record booking =
  row_id :: string
  booking_number :: string
  first_name :: string
  last_name :: string
  booking_phone :: string
  booking_address :: string
  booking_city :: "string option"
  operating_system :: string
  booking_comments :: string
  appointment_date :: instant
  deleted_at :: "instant option"

datatype toast =
    ToastError string
  | ToastSuccess string string
  | ToastWarning string string

text \<open>
  The component state of \<open>App\<close>, together with the two things its handlers act on
  outside it: the rows of the remote table and the toasts shown so far.
\<close>

record app =
  formData :: bookingFormData
  bookedSlots :: "instant list"
  availableTimeSlots :: "string list"
  isSubmitting :: bool
  settings :: settings
  bookings :: "booking list"
  toasts :: "toast list"

text \<open>\<open>s || d\<close> on a string and \<open>n || d\<close> on a number: the default replaces a falsy value.\<close>

definition strOr :: "string \<Rightarrow> string \<Rightarrow> string" where
  "strOr s d = (if s = [] then d else s)"

definition numOr :: "int \<Rightarrow> int \<Rightarrow> int" where
  "numOr n d = (if n = 0 then d else n)"

definition minIntervalMs :: "settings \<Rightarrow> int" where
  "minIntervalMs s = numOr (minIntervalHours s) 3 * 60 * 60 * 1000"

section \<open>Slot availability\<close>

text \<open>
  The callback that \<open>updateAvailableTimeSlots\<close> passes to \<open>filter\<close> and
  \<open>isDateDisabled\<close> passes to \<open>some\<close>; the two copies in the source are the same text,
  with \<open>selectedDate\<close> and \<open>date\<close> for the day. A slot text that is no time makes
  \<open>timeToCheck\<close> invalid and every difference NaN, so nothing is closer than the interval.
\<close>

definition slotFree :: "int \<Rightarrow> app \<Rightarrow> instant \<Rightarrow> string \<Rightarrow> bool" where
  "slotFree tz st selectedDate time =
     (case hoursMinutes time of
        None \<Rightarrow> True
      | Some (hours, minutes) \<Rightarrow>
          (let timeToCheck = setHours tz selectedDate (int hours) (int minutes) 0 0
           in \<not> list_ex (\<lambda>bookedSlot.
                  let diff = \<bar>timeToCheck - bookedSlot\<bar> in diff < minIntervalMs (settings st))
                (bookedSlots st)))"

definition updateAvailableTimeSlots :: "int \<Rightarrow> app \<Rightarrow> instant \<Rightarrow> app" where
  "updateAvailableTimeSlots tz st selectedDate =
     (let timeSlots = generateTimeSlots (strOr (workStartTime (settings st)) ''09:00'')
                                        (strOr (workEndTime (settings st)) ''20:00'');
          available = filter (slotFree tz st selectedDate) timeSlots
      in st\<lparr>availableTimeSlots := available\<rparr>)"

section \<open>Disabled dates\<close>

text \<open>\<open>now\<close> is the value of \<open>new Date()\<close> at the call.\<close>

definition isDateDisabled :: "int \<Rightarrow> instant \<Rightarrow> app \<Rightarrow> instant \<Rightarrow> bool" where
  "isDateDisabled tz now st date =
     (let today = setHours tz now 0 0 0 0;
          checkDate = setHours tz date 0 0 0 0
      in if checkDate < today then True
         else let dayOfWeek = getDay tz date
      in if dayOfWeek \<in> set (disabledWeekdays (settings st)) then True
         else let dateStr = formatDateToYYYYMMDD tz date
      in if dateStr \<in> set (disabledDates (settings st)) then True
         else if (case maxBookingsPerDay (settings st) of
                    None \<Rightarrow> False
                  | Some maxBookings \<Rightarrow>
                      (let dateStart = setHours tz date 0 0 0 0;
                           dateEnd = setHours tz date 23 59 59 999;
                           bookingsOnDate =
                             length (filter (\<lambda>slotDate. slotDate \<ge> dateStart \<and> slotDate \<le> dateEnd)
                                            (bookedSlots st))
                       in int bookingsOnDate \<ge> maxBookings))
         then True
         else let timeSlots = generateTimeSlots (strOr (workStartTime (settings st)) ''09:00'')
                                                (strOr (workEndTime (settings st)) ''20:00'');
                  hasAvailableSlots = list_ex (slotFree tz st date) timeSlots
      in \<not> hasAvailableSlots)"

subsection \<open>The five rules as the specification words them\<close>

text \<open>Rule 1: the date is strictly before the current calendar date.\<close>

definition rulePast :: "int \<Rightarrow> instant \<Rightarrow> app \<Rightarrow> instant \<Rightarrow> bool" where
  "rulePast tz now st date = (localDay tz date < localDay tz now)"

text \<open>
  Rule 2: the weekday of the date is one of the disabled weekdays. The weekday is counted
  from the day number: 0 is Sunday, and day 0, 1 January 1970, was a Thursday, weekday 4.
\<close>

definition ruleWeekday :: "int \<Rightarrow> instant \<Rightarrow> app \<Rightarrow> instant \<Rightarrow> bool" where
  "ruleWeekday tz now st date =
     ((localDay tz date + 4) mod 7 \<in> set (disabledWeekdays (settings st)))"

text \<open>
  Rule 3: the date, written year-month-day with the month and the day of the month in two
  digits, is one of the disabled dates.
\<close>

definition ruleListed :: "int \<Rightarrow> instant \<Rightarrow> app \<Rightarrow> instant \<Rightarrow> bool" where
  "ruleListed tz now st date =
     (case civil (localDay tz date) of
        (y, m, d) \<Rightarrow>
          String_int y @ ''-'' @ padStart 2 CHR ''0'' (String_int m) @ ''-'' @
          padStart 2 CHR ''0'' (String_int d) \<in> set (disabledDates (settings st)))"

text \<open>
  Rule 4: a cap is set and the bookings whose instant falls on the calendar day of the date
  are at least as many as the cap.
\<close>

definition ruleCapacity :: "int \<Rightarrow> instant \<Rightarrow> app \<Rightarrow> instant \<Rightarrow> bool" where
  "ruleCapacity tz now st date =
     (case maxBookingsPerDay (settings st) of
        None \<Rightarrow> False
      | Some cap \<Rightarrow>
          cap \<le> int (length (filter (\<lambda>b. localDay tz b = localDay tz date) (bookedSlots st))))"

text \<open>Rule 5: none of the generated slots of the date is available.\<close>

definition ruleNoSlots :: "int \<Rightarrow> instant \<Rightarrow> app \<Rightarrow> instant \<Rightarrow> bool" where
  "ruleNoSlots tz now st date =
     (\<forall>time \<in> set (generateTimeSlots (strOr (workStartTime (settings st)) ''09:00'')
                                        (strOr (workEndTime (settings st)) ''20:00'')).
        \<not> slotFree tz st date time)"

text \<open>Checking a list of rules one after the other, stopping at the first that holds.\<close>

fun firstHolds :: "(int \<Rightarrow> instant \<Rightarrow> app \<Rightarrow> instant \<Rightarrow> bool) list
                   \<Rightarrow> int \<Rightarrow> instant \<Rightarrow> app \<Rightarrow> instant \<Rightarrow> bool" where
  "firstHolds [] tz now st date = False"
| "firstHolds (rule # rules) tz now st date =
     (if rule tz now st date then True else firstHolds rules tz now st date)"

section \<open>Sending the text message\<close>

text \<open>
  A thrown value is an \<open>Error\<close> object, of which only the message matters, or anything
  else.
\<close>

datatype thrown = ErrorObject string | OtherValue

text \<open>
  The body that the edge function \<open>send-sms\<close> answers with, as far as \<open>sendSMS\<close> reads
  it: the function writes \<open>error\<close>, \<open>details\<close> and \<open>messageId\<close> as strings and
  \<open>success\<close> as a boolean, and a field it does not write is absent.
\<close>

record smsData =
  data_error :: "string option"
  data_details :: "string option"
  data_success :: "bool option"
  data_messageId :: "string option"

text \<open>
  What \<open>supabase.functions.invoke\<close> does: it resolves to a pair of \<open>data\<close> (possibly
  null) and \<open>error\<close> (null, or an error object, kept as its message), or it rejects.
\<close>

datatype invoked = Resolved "smsData option" "string option" | Rejected thrown

record smsResult =
  success :: bool
  error :: "string option"

text \<open>Truthiness of an optional string and of an optional boolean.\<close>

definition truthyStr :: "string option \<Rightarrow> bool" where
  "truthyStr v = (case v of None \<Rightarrow> False | Some s \<Rightarrow> s \<noteq> [])"

definition truthyBool :: "bool option \<Rightarrow> bool" where
  "truthyBool v = (case v of None \<Rightarrow> False | Some b \<Rightarrow> b)"

definition startsWith :: "string \<Rightarrow> string \<Rightarrow> bool" where
  "startsWith s p = (take (length p) s = p)"

text \<open>\<open>a || b\<close> on two optional strings.\<close>

definition orStr :: "string option \<Rightarrow> string option \<Rightarrow> string option" where
  "orStr a b = (if truthyStr a then a else b)"

text \<open>The class \<open>\D\<close> and \<open>s.replace(/\D/g, '')\<close>, which deletes every match.\<close>

definition nonDigit :: "char \<Rightarrow> bool" where
  "nonDigit c = (\<not> isDigit c)"

definition deleteAll :: "(char \<Rightarrow> bool) \<Rightarrow> string \<Rightarrow> string" where
  "deleteAll matches s = filter (\<lambda>c. \<not> matches c) s"

text \<open>The first three statements of \<open>sendSMS\<close>: the number that is put in the request.\<close>

definition formattedPhone :: "string \<Rightarrow> string" where
  "formattedPhone phoneArg =
     (let formatted = deleteAll nonDigit phoneArg
      in if \<not> startsWith formatted ''+'' then ''+'' @ formatted else formatted)"

text \<open>
  The body of the \<open>try\<close> block. \<open>invoke\<close> stands for the call of the edge function
  with the request body \<open>(phone, message)\<close>; \<open>phoneArg\<close> is the parameter \<open>phone\<close>,
  renamed apart from the form field of that name.
\<close>

definition sendSMS_try :: "(string \<Rightarrow> string \<Rightarrow> invoked) \<Rightarrow> string \<Rightarrow> string \<Rightarrow> thrown + smsResult" where
  "sendSMS_try invoke phoneArg message =
     (case invoke (formattedPhone phoneArg) message of
        Rejected e \<Rightarrow> Inl e
      | Resolved data err \<Rightarrow>
          (case err of
             Some msg \<Rightarrow>
               Inr \<lparr>success = False,
                    error = Some (strOr msg
                      ''Failed to invoke SMS function. Make sure the Edge Function is deployed.'')\<rparr>
           | None \<Rightarrow>
               (case data of
                  None \<Rightarrow>
                    Inr \<lparr>success = False, error = Some ''Unexpected response from SMS service''\<rparr>
                | Some d \<Rightarrow>
                    if truthyStr (data_error d)
                    then Inr \<lparr>success = False,
                              error = orStr (orStr (data_details d) (data_error d))
                                            (Some ''Failed to send SMS'')\<rparr>
                    else if truthyBool (data_success d) \<or> truthyStr (data_messageId d)
                    then Inr \<lparr>success = True, error = None\<rparr>
                    else Inr \<lparr>success = False,
                              error = Some ''Unexpected response from SMS service''\<rparr>)))"

text \<open>The whole function: the \<open>catch\<close> clause turns a thrown value into a result.\<close>

definition sendSMS :: "(string \<Rightarrow> string \<Rightarrow> invoked) \<Rightarrow> string \<Rightarrow> string \<Rightarrow> thrown + smsResult" where
  "sendSMS invoke phoneArg message =
     (case sendSMS_try invoke phoneArg message of
        Inr result \<Rightarrow> Inr result
      | Inl e \<Rightarrow>
          Inr \<lparr>success = False,
               error = Some (case e of ErrorObject msg \<Rightarrow> msg
                                     | OtherValue \<Rightarrow> ''Unknown error occurred'')\<rparr>)"

section \<open>Submitting a booking\<close>

text \<open>
  What the world outside the component answers during one run of \<open>handleSubmit\<close>: the
  translation function \<open>t\<close>, the locale's rendering of a date, the outcome of the insert (the
  store assigns the row its id and its booking number) and whether the later read of the
  booked slots returns data.
\<close>

datatype insertOutcome = InsertFailed | Inserted string string

record env =
  translate :: "string \<Rightarrow> string"
  toLocaleString :: "instant \<Rightarrow> string"
  insertResult :: insertOutcome
  fetchReturnsData :: bool

definition emptyForm :: bookingFormData where
  "emptyForm = \<lparr>firstName = [], lastName = [], phone = [], address = [], city = [],
                operatingSystem = [], comments = [], appointmentDate = None,
                appointmentTime = []\<rparr>"

definition fetchBookedSlots :: "env \<Rightarrow> app \<Rightarrow> app" where
  "fetchBookedSlots e st =
     (if fetchReturnsData e
      then st\<lparr>bookedSlots := map appointment_date (filter (\<lambda>b. deleted_at b = None) (bookings st))\<rparr>
      else st)"

definition addToast :: "toast \<Rightarrow> app \<Rightarrow> app" where
  "addToast x st = st\<lparr>toasts := toasts st @ [x]\<rparr>"

text \<open>The row that the insert statement creates from the form.\<close>

definition newBooking :: "bookingFormData \<Rightarrow> instant \<Rightarrow> string \<Rightarrow> string \<Rightarrow> booking" where
  "newBooking f appointmentDateTime rowId number =
     \<lparr>row_id = rowId, booking_number = number,
      first_name = firstName f, last_name = lastName f, booking_phone = phone f,
      booking_address = address f,
      booking_city = (if city f = [] then None else Some (city f)),
      operating_system = operatingSystem f, booking_comments = comments f,
      appointment_date = appointmentDateTime, deleted_at = None\<rparr>"

definition smsMessage :: "env \<Rightarrow> bookingFormData \<Rightarrow> string \<Rightarrow> instant \<Rightarrow> string" where
  "smsMessage e f bookingNumber appointmentDateTime =
     translate e ''smsGreeting'' @ '', '' @ firstName f @ ''! '' @ translate e ''smsBookingCreated'' @ '' #'' @
     bookingNumber @ '' '' @ translate e ''smsAppointmentInfo'' @ '' '' @
     toLocaleString e appointmentDateTime @ ''. '' @ translate e ''smsContact''"

text \<open>
  The block guarded by \<open>settings.sendSMS\<close>, with its own \<open>try\<close> and \<open>catch\<close>:
  \<open>sms\<close> is the imported \<open>sendSMS\<close>.
\<close>

definition notifyCustomer :: "(string \<Rightarrow> string \<Rightarrow> thrown + smsResult) \<Rightarrow> env \<Rightarrow> bookingFormData
                              \<Rightarrow> string \<Rightarrow> instant \<Rightarrow> app \<Rightarrow> app" where
  "notifyCustomer sms e f bookingNumber appointmentDateTime st =
     (case sms (phone f) (smsMessage e f bookingNumber appointmentDateTime) of
        Inr smsResult \<Rightarrow>
          if \<not> success smsResult
          then addToast (ToastWarning (translate e ''smsError'')
                           (case error smsResult of None \<Rightarrow> [] | Some msg \<Rightarrow> msg)) st
          else st
      | Inl smsError \<Rightarrow>
          addToast (ToastWarning (translate e ''smsError'')
                      (case smsError of ErrorObject msg \<Rightarrow> msg | OtherValue \<Rightarrow> ''Unknown error'')) st)"

text \<open>
  The outer \<open>try\<close> block: \<open>Inl\<close> is the state at the moment something was thrown.
  A time that does not parse gives an invalid date, on which \<open>toISOString\<close> throws.
\<close>

definition handleSubmit_try :: "int \<Rightarrow> (string \<Rightarrow> string \<Rightarrow> thrown + smsResult) \<Rightarrow> env \<Rightarrow> instant
                                \<Rightarrow> app \<Rightarrow> app + app" where
  "handleSubmit_try tz sms e appointmentDay st =
     (let f = formData st in
      case hoursMinutes (appointmentTime f) of
        None \<Rightarrow> Inl st
      | Some (hours, minutes) \<Rightarrow>
          (let appointmentDateTime = setHours tz appointmentDay (int hours) (int minutes) 0 0 in
           case insertResult e of
             InsertFailed \<Rightarrow> Inl st
           | Inserted rowId number \<Rightarrow>
               (let st1 = st\<lparr>bookings := bookings st @ [newBooking f appointmentDateTime rowId number]\<rparr>;
                    bookingNumber = strOr number (take 8 rowId);
                    st2 = addToast (ToastSuccess (translate e ''bookingSuccess'') bookingNumber) st1;
                    st3 = (if sendSMSEnabled (settings st2) \<noteq> False
                           then notifyCustomer sms e f bookingNumber appointmentDateTime st2
                           else st2);
                    st4 = st3\<lparr>formData := emptyForm\<rparr>
                in Inr (fetchBookedSlots e st4))))"

definition handleSubmit :: "int \<Rightarrow> (string \<Rightarrow> string \<Rightarrow> thrown + smsResult) \<Rightarrow> env \<Rightarrow> app \<Rightarrow> app" where
  "handleSubmit tz sms e st =
     (case appointmentDate (formData st) of
        None \<Rightarrow> addToast (ToastError (translate e ''selectDateTime'')) st
      | Some appointmentDay \<Rightarrow>
          if appointmentTime (formData st) = []
          then addToast (ToastError (translate e ''selectDateTime'')) st
          else
            (let st0 = st\<lparr>isSubmitting := True\<rparr>;
                 st' = (case handleSubmit_try tz sms e appointmentDay st0 of
                          Inr done \<Rightarrow> done
                        | Inl failed \<Rightarrow> addToast (ToastError (translate e ''error'')) failed)
             in st'\<lparr>isSubmitting := False\<rparr>))"

text \<open>The dispatch failed: \<open>sendSMS\<close> threw, or returned a result that is no success.\<close>

definition smsFails :: "thrown + smsResult \<Rightarrow> bool" where
  "smsFails outcome = (case outcome of Inl e \<Rightarrow> True | Inr result \<Rightarrow> \<not> success result)"

section \<open>The initial state and four snapshots\<close>

text \<open>The initial values that \<open>App\<close> gives its state.\<close>

definition defaultSettings :: settings where
  "defaultSettings =
     \<lparr>firstDayOfWeek = 1, disabledWeekdays = [], disabledDates = [], minIntervalHours = 3,
      workStartTime = ''09:00'', workEndTime = ''20:00'', maxBookingsPerDay = None,
      sendSMSEnabled = True\<rparr>"

definition initialApp :: app where
  "initialApp =
     \<lparr>formData = emptyForm, bookedSlots = [], availableTimeSlots = [], isSubmitting = False,
      settings = defaultSettings, bookings = [], toasts = []\<rparr>"

text \<open>Midnight UTC of Sunday 2 November 2025, and an hour in milliseconds.\<close>

definition sunday :: instant where
  "sunday = 1762041600000"

definition hour :: int where
  "hour = 3600000"

text \<open>A cap of one booking a day, and one booking on the Sunday at 09:00.\<close>

definition cappedDay :: app where
  "cappedDay = initialApp\<lparr>settings := defaultSettings\<lparr>maxBookingsPerDay := Some 1\<rparr>,
                          bookedSlots := [sunday + 9 * hour]\<rparr>"

text \<open>A cap of ten, an interval of 24 hours, and one booking on the Sunday at 14:00.\<close>

definition spacedDay :: app where
  "spacedDay = initialApp\<lparr>settings := defaultSettings\<lparr>maxBookingsPerDay := Some 10,
                                                        minIntervalHours := 24\<rparr>,
                          bookedSlots := [sunday + 14 * hour]\<rparr>"

text \<open>Sundays closed; and, apart from that, the one date 2 November 2025 closed.\<close>

definition closedSundays :: app where
  "closedSundays = initialApp\<lparr>settings := defaultSettings\<lparr>disabledWeekdays := [0]\<rparr>\<rparr>"

definition closedDate :: app where
  "closedDate = initialApp\<lparr>settings := defaultSettings\<lparr>disabledDates := [''2025-11-02'']\<rparr>\<rparr>"

text \<open>Work from 01:00 to 23:00, and one booking on the Saturday before at 23:00.\<close>

definition lateSaturday :: app where
  "lateSaturday = initialApp\<lparr>settings := defaultSettings\<lparr>workStartTime := ''01:00'',
                                                           workEndTime := ''23:00''\<rparr>,
                             bookedSlots := [sunday - 1 * hour]\<rparr>"

text \<open>
  An interval of 24 hours, a booking on the Saturday before at 20:00 and one on the Monday
  after at 09:00.
\<close>

definition bothNeighbours :: app where
  "bothNeighbours = initialApp\<lparr>settings := defaultSettings\<lparr>minIntervalHours := 24\<rparr>,
                               bookedSlots := [sunday - 4 * hour, sunday + 33 * hour]\<rparr>"

text \<open>
  A filled form for the Sunday at 12:00, a store that accepts the row, and an edge function
  that cannot be reached.
\<close>

definition filledApp :: app where
  "filledApp = initialApp\<lparr>formData := emptyForm\<lparr>firstName := ''Dana'', lastName := ''Levi'',
                                                    phone := ''050-123 4567'',
                                                    operatingSystem := ''linux'',
                                                    appointmentDate := Some sunday,
                                                    appointmentTime := ''12:00''\<rparr>\<rparr>"

definition acceptingStore :: env where
  "acceptingStore = \<lparr>translate = (\<lambda>key. key), toLocaleString = (\<lambda>d. ''02/11/2025, 12:00:00''),
                     insertResult = Inserted ''4f2c9a1e-77aa'' ''BK-20251102-0001'',
                     fetchReturnsData = True\<rparr>"

definition unreachable :: "string \<Rightarrow> string \<Rightarrow> invoked" where
  "unreachable phoneArg message = Rejected (ErrorObject ''Failed to fetch'')"

section \<open>Numerals and slot texts: what parsing gives back\<close>

lemma of_char_digitChar: "d < 10 \<Longrightarrow> (of_char (digitChar d) :: nat) = 48 + d"
  by (simp add: digitChar_def)

lemma digitChar_digit: "d < 10 \<Longrightarrow> isDigit (digitChar d) \<and> digitVal (digitChar d) = d"
  by (simp add: isDigit_def digitVal_def of_char_digitChar)

lemma isDigit_not_colon: "isDigit c \<Longrightarrow> c \<noteq> CHR '':''"
  by (auto simp: isDigit_def)

lemma isDigit_zero: "isDigit CHR ''0''"
  by (simp add: isDigit_def)

lemma String_nat_digits: "list_all isDigit (String_nat n)"
proof (induction n rule: String_nat.induct)
  case (1 n)
  show ?case
  proof (cases "n < 10")
    case True
    then show ?thesis by (subst String_nat.simps) (simp add: digitChar_digit)
  next
    case False
    with 1 show ?thesis by (subst String_nat.simps) (simp add: digitChar_digit)
  qed
qed

lemma String_nat_value: "foldl (\<lambda>n c. 10 * n + digitVal c) 0 (String_nat n) = n"
proof (induction n rule: String_nat.induct)
  case (1 n)
  show ?case
  proof (cases "n < 10")
    case True
    then show ?thesis by (subst String_nat.simps) (simp add: digitChar_digit)
  next
    case False
    with 1 show ?thesis by (subst String_nat.simps) (simp add: digitChar_digit)
  qed
qed

lemma foldl_zeros:
  "foldl (\<lambda>n c. 10 * n + digitVal c) 0 (replicate k CHR ''0'' @ s) =
   foldl (\<lambda>n c. 10 * n + digitVal c) 0 s"
  by (induction k) (simp_all add: digitVal_def)

lemma padStart_digits: "list_all isDigit (padStart k CHR ''0'' (String_nat n))"
  using String_nat_digits[of n] by (auto simp: padStart_def list_all_iff isDigit_zero)

lemma Number_padStart: "Number (padStart k CHR ''0'' (String_nat n)) = Some n"
  unfolding Number_def using padStart_digits[of k n]
  by (simp add: padStart_def String_nat_value foldl_zeros del: foldl_append)

lemma split_no_sep: "sep \<notin> set s \<Longrightarrow> split sep s = [s]"
  by (induction s) auto

lemma split_two: "sep \<notin> set a \<Longrightarrow> sep \<notin> set b \<Longrightarrow> split sep (a @ sep # b) = [a, b]"
  by (induction a) (auto simp: split_no_sep)

lemma hoursMinutes_slotText: "hoursMinutes (slotText h m) = Some (h, m)"
proof -
  have a: "CHR '':'' \<notin> set (padStart 2 CHR ''0'' (String_nat h))"
    using padStart_digits[of 2 h] isDigit_not_colon by (auto simp: list_all_iff)
  have b: "CHR '':'' \<notin> set (padStart 2 CHR ''0'' (String_nat m))"
    using padStart_digits[of 2 m] isDigit_not_colon by (auto simp: list_all_iff)
  show ?thesis
    unfolding hoursMinutes_def slotText_def
    using split_two[OF a b] by (simp add: Number_padStart)
qed

lemma slotMinutes_slotText: "slotMinutes (slotText h m) = Some (h * 60 + m)"
  by (simp add: slotMinutes_def hoursMinutes_slotText)

section \<open>The loop of the generator\<close>

lemma slotCount_step:
  assumes "minutes \<le> endMinutes"
  shows "slotCount minutes endMinutes = Suc (slotCount (minutes + 60) endMinutes)"
proof (cases "minutes + 60 \<le> endMinutes")
  case True
  then have "60 \<le> endMinutes - minutes" by simp
  then have "(endMinutes - minutes) div 60 = Suc ((endMinutes - minutes - 60) div 60)"
    by (simp add: le_div_geq)
  moreover have "endMinutes - minutes - 60 = endMinutes - (minutes + 60)" by simp
  ultimately show ?thesis using assms True by (simp add: slotCount_def)
next
  case False
  then have "endMinutes - minutes < 60" by simp
  then have "(endMinutes - minutes) div 60 = 0" by simp
  then show ?thesis using assms False by (simp add: slotCount_def)
qed

lemma slotLoop_eq:
  "slotLoop slots minutes endMinutes =
     slots @ map (\<lambda>k. slotText ((minutes + 60 * k) div 60) ((minutes + 60 * k) mod 60))
                 [0 ..< slotCount minutes endMinutes]"
proof (induction slots minutes endMinutes rule: slotLoop.induct)
  case (1 slots minutes endMinutes)
  show ?case
  proof (cases "minutes \<le> endMinutes")
    case False
    then show ?thesis by (subst slotLoop.simps) (simp add: slotCount_def)
  next
    case True
    have "slotLoop slots minutes endMinutes =
          slotLoop (slots @ [slotText (minutes div 60) (minutes mod 60)]) (minutes + 60) endMinutes"
      using True by (subst slotLoop.simps) simp
    also have "\<dots> = (slots @ [slotText (minutes div 60) (minutes mod 60)]) @
        map (\<lambda>k. slotText ((minutes + 60 + 60 * k) div 60) ((minutes + 60 + 60 * k) mod 60))
            [0 ..< slotCount (minutes + 60) endMinutes]"
      by (rule 1[OF True])
    also have "\<dots> = slots @ map (\<lambda>k. slotText ((minutes + 60 * k) div 60) ((minutes + 60 * k) mod 60))
                 [0 ..< slotCount minutes endMinutes]"
    proof -
      have e: "minutes + 60 * Suc k = minutes + 60 + 60 * k" for k by simp
      show ?thesis
        unfolding slotCount_step[OF True] map_upt_Suc e by simp
    qed
    finally show ?thesis .
  qed
qed

lemma generateTimeSlots_eq:
  "generateTimeSlots (slotText sh sm) (slotText eh em) =
     map (\<lambda>k. slotText ((sh * 60 + sm + 60 * k) div 60) ((sh * 60 + sm + 60 * k) mod 60))
         [0 ..< slotCount (sh * 60 + sm) (eh * 60 + em)]"
  by (simp add: generateTimeSlots_def hoursMinutes_slotText slotLoop_eq)

lemma slotText_split: "slotText (n div 60) (n mod 60) = slotText h m \<Longrightarrow> m < 60 \<Longrightarrow> n = h * 60 + m"
proof -
  assume a: "slotText (n div 60) (n mod 60) = slotText h m" and b: "m < 60"
  from a have "hoursMinutes (slotText (n div 60) (n mod 60)) = hoursMinutes (slotText h m)"
    by simp
  then have "n div 60 = h" and "n mod 60 = m" by (simp_all add: hoursMinutes_slotText)
  then show ?thesis using div_mult_mod_eq[of n 60] by simp
qed

lemma hourly_nth:
  "i < n \<Longrightarrow> map (\<lambda>k. S + 60 * k) [0 ..< n] ! i = S + 60 * (i::nat)"
  by simp

lemma hourly_sorted: "sorted_wrt (<) (map (\<lambda>k. S + 60 * k) [0 ..< (n::nat)])"
  by (simp add: sorted_wrt_iff_nth_less)

lemma hourly_last: "last (map (\<lambda>k. S + 60 * k) [0 ..< Suc n]) = S + 60 * (n::nat)"
  by simp

lemma div60_bound: "(S::nat) \<le> E \<Longrightarrow> S + 60 * ((E - S) div 60) \<le> E"
proof -
  assume "S \<le> E"
  have "60 * ((E - S) div 60) \<le> E - S" by simp
  with \<open>S \<le> E\<close> show ?thesis by simp
qed

lemma div60_max: "(S::nat) + 60 * k \<le> E \<Longrightarrow> k \<le> (E - S) div 60"
proof -
  assume "S + 60 * k \<le> E"
  then have "k * 60 \<le> E - S" by simp
  then show ?thesis by (simp add: less_eq_div_iff_mult_less_eq)
qed

section \<open>Local days\<close>

lemma setHours_midnight: "setHours tz t 0 0 0 0 = localDay tz t * msPerDay - tz"
proof -
  have "(t + tz) mod msPerDay = (t + tz) - (t + tz) div msPerDay * msPerDay"
    by (simp add: minus_div_mult_eq_mod)
  then show ?thesis unfolding setHours_def localDay_def by linarith
qed

lemma setHours_endOfDay: "setHours tz t 23 59 59 999 = localDay tz t * msPerDay - tz + (msPerDay - 1)"
proof -
  have "setHours tz t 23 59 59 999 = setHours tz t 0 0 0 0 + (msPerDay - 1)"
    by (simp add: setHours_def msPerDay_def)
  then show ?thesis by (simp add: setHours_midnight)
qed

lemma msPerDay_pos: "0 < msPerDay"
  by (simp add: msPerDay_def)

lemma past_iff:
  "setHours tz date 0 0 0 0 < setHours tz now 0 0 0 0 \<longleftrightarrow> localDay tz date < localDay tz now"
  unfolding setHours_midnight using msPerDay_pos by simp

lemma day_bounds: "(D * msPerDay \<le> x \<and> x \<le> D * msPerDay + (msPerDay - 1)) \<longleftrightarrow> x div msPerDay = D"
proof
  assume a: "D * msPerDay \<le> x \<and> x \<le> D * msPerDay + (msPerDay - 1)"
  define r where "r = x - D * msPerDay"
  have r: "0 \<le> r" "r < msPerDay" using a by (simp_all add: r_def)
  have "x = D * msPerDay + r" by (simp add: r_def)
  then have "x div msPerDay = (D * msPerDay + r) div msPerDay" by simp
  also have "\<dots> = D + r div msPerDay" using msPerDay_pos by simp
  also have "\<dots> = D" using r by simp
  finally show "x div msPerDay = D" .
next
  assume b: "x div msPerDay = D"
  have "x mod msPerDay = x - x div msPerDay * msPerDay"
    by (simp add: minus_div_mult_eq_mod)
  moreover have "0 \<le> x mod msPerDay" "x mod msPerDay < msPerDay"
    using msPerDay_pos by simp_all
  ultimately show "D * msPerDay \<le> x \<and> x \<le> D * msPerDay + (msPerDay - 1)"
    unfolding b by linarith
qed

lemma onDay_iff:
  "(setHours tz date 0 0 0 0 \<le> b \<and> b \<le> setHours tz date 23 59 59 999)
     \<longleftrightarrow> localDay tz b = localDay tz date"
proof -
  have "(setHours tz date 0 0 0 0 \<le> b \<and> b \<le> setHours tz date 23 59 59 999)
     \<longleftrightarrow> (localDay tz date * msPerDay \<le> b + tz \<and> b + tz \<le> localDay tz date * msPerDay + (msPerDay - 1))"
    unfolding setHours_midnight setHours_endOfDay by auto
  also have "\<dots> \<longleftrightarrow> (b + tz) div msPerDay = localDay tz date" by (rule day_bounds)
  finally show ?thesis by (simp add: localDay_def)
qed

lemma getDay_weekday: "getDay tz date = (localDay tz date + 4) mod 7"
  by (simp add: getDay_def)

lemma formatDate_civil:
  "formatDateToYYYYMMDD tz date =
     (case civil (localDay tz date) of
        (y, m, d) \<Rightarrow>
          String_int y @ ''-'' @ padStart 2 CHR ''0'' (String_int m) @ ''-'' @
          padStart 2 CHR ''0'' (String_int d))"
  by (cases "civil (localDay tz date)")
     (simp add: formatDateToYYYYMMDD_def getFullYear_def getMonth_def getDate_def Let_def)

lemma ruleListed_format:
  "ruleListed tz now st date = (formatDateToYYYYMMDD tz date \<in> set (disabledDates (settings st)))"
  by (cases "civil (localDay tz date)") (simp add: ruleListed_def formatDate_civil)

lemma isDateDisabled_rules:
  "isDateDisabled tz now st date =
     (rulePast tz now st date \<or> ruleWeekday tz now st date \<or> ruleListed tz now st date \<or>
      ruleCapacity tz now st date \<or> ruleNoSlots tz now st date)"
proof -
  have cap: "(case maxBookingsPerDay (settings st) of
                    None \<Rightarrow> False
                  | Some maxBookings \<Rightarrow>
                      (let dateStart = setHours tz date 0 0 0 0;
                           dateEnd = setHours tz date 23 59 59 999;
                           bookingsOnDate =
                             length (filter (\<lambda>slotDate. slotDate \<ge> dateStart \<and> slotDate \<le> dateEnd)
                                            (bookedSlots st))
                       in int bookingsOnDate \<ge> maxBookings)) = ruleCapacity tz now st date"
    by (simp add: ruleCapacity_def onDay_iff split: option.splits)
  show ?thesis
    unfolding isDateDisabled_def cap
    by (simp add: Let_def past_iff rulePast_def ruleWeekday_def getDay_weekday ruleListed_format
                  ruleNoSlots_def list_ex_iff)
qed

lemma firstHolds_iff: "firstHolds rules tz now st date = (\<exists>rule \<in> set rules. rule tz now st date)"
  by (induction rules) auto

section \<open>Instants on one local day\<close>

lemma setHours_diff:
  "setHours tz d h1 m1 0 0 - setHours tz d h2 m2 0 0 = (h1 - h2) * 3600000 + (m1 - m2) * 60000"
  by (simp add: setHours_def algebra_simps)

lemma slotFree_parsed:
  "hoursMinutes time = Some (hours, minutes) \<Longrightarrow>
   slotFree tz st selectedDate time =
     (\<forall>b \<in> set (bookedSlots st).
        \<not> \<bar>setHours tz selectedDate (int hours) (int minutes) 0 0 - b\<bar> < minIntervalMs (settings st))"
  by (simp add: slotFree_def list_ex_iff Let_def)

section \<open>The phone number in the request\<close>

lemma deleteAll_nonDigit: "deleteAll nonDigit s = filter isDigit s"
  by (simp add: deleteAll_def nonDigit_def)

lemma plus_not_digit: "\<not> isDigit CHR ''+''"
  by (simp add: isDigit_def)

lemma guard_never_false: "\<not> startsWith (filter isDigit s) ''+''"
proof
  assume "startsWith (filter isDigit s) ''+''"
  then have "take 1 (filter isDigit s) = [CHR ''+'']" by (simp add: startsWith_def)
  then have "CHR ''+'' \<in> set (take 1 (filter isDigit s))" by simp
  then have "CHR ''+'' \<in> set (filter isDigit s)" by (rule in_set_takeD)
  then show False using plus_not_digit by simp
qed

lemma formattedPhone_eq: "formattedPhone phoneArg = CHR ''+'' # filter isDigit phoneArg"
  by (simp add: formattedPhone_def deleteAll_nonDigit guard_never_false Let_def)

section \<open>Submitting a booking when the text message fails\<close>

lemma hoursMinutes_empty: "hoursMinutes [] = None"
  by (simp add: hoursMinutes_def Number_def)

lemma notifyCustomer_fails:
  assumes "smsFails (sms (phone f) (smsMessage e f bookingNumber appointmentDateTime))"
  shows "\<exists>detail. notifyCustomer sms e f bookingNumber appointmentDateTime st =
           st\<lparr>toasts := toasts st @ [ToastWarning (translate e ''smsError'') detail]\<rparr>"
  using assms
  by (auto simp: notifyCustomer_def smsFails_def addToast_def split: sum.splits)

section \<open>The claims\<close>

text \<open>
  Claim C1. For a positive \<open>minIntervalHours\<close> and a slot text that is a time, the slot is
  available exactly when no booked instant is closer to the slot's instant on the selected
  day than \<open>minIntervalHours\<close> in milliseconds, and \<open>updateAvailableTimeSlots\<close> keeps exactly
  the generated slots for which this holds. With no bookings every slot is available; with
  an interval of 3 hours and one booking at 10:00 of the day, 13:00 is available and 12:59
  is not.
\<close>

theorem slotFree_spacing:
  assumes pos: "0 < minIntervalHours (settings st)"
    and tm: "hoursMinutes time = Some (hours, minutes)"
  shows "(slotFree tz st selectedDate time \<longleftrightarrow>
            (\<forall>b \<in> set (bookedSlots st).
               \<not> \<bar>setHours tz selectedDate (int hours) (int minutes) 0 0 - b\<bar>
                   < minIntervalHours (settings st) * 3600000))
       \<and> (time \<in> set (availableTimeSlots (updateAvailableTimeSlots tz st selectedDate)) \<longleftrightarrow>
            time \<in> set (generateTimeSlots (strOr (workStartTime (settings st)) ''09:00'')
                                          (strOr (workEndTime (settings st)) ''20:00'')) \<and>
            (\<forall>b \<in> set (bookedSlots st).
               \<not> \<bar>setHours tz selectedDate (int hours) (int minutes) 0 0 - b\<bar>
                   < minIntervalHours (settings st) * 3600000))
       \<and> (bookedSlots st = [] \<longrightarrow> slotFree tz st selectedDate time)
       \<and> (minIntervalHours (settings st) = 3 \<and> bookedSlots st = [setHours tz selectedDate 10 0 0 0]
            \<longrightarrow> slotFree tz st selectedDate ''13:00'' \<and> \<not> slotFree tz st selectedDate ''12:59'')"
proof -
  have ms: "minIntervalMs (settings st) = minIntervalHours (settings st) * 3600000"
    using pos by (simp add: minIntervalMs_def numOr_def)
  have a: "slotFree tz st selectedDate time \<longleftrightarrow>
            (\<forall>b \<in> set (bookedSlots st).
               \<not> \<bar>setHours tz selectedDate (int hours) (int minutes) 0 0 - b\<bar>
                   < minIntervalHours (settings st) * 3600000)"
    unfolding slotFree_parsed[OF tm] ms ..
  have b: "time \<in> set (availableTimeSlots (updateAvailableTimeSlots tz st selectedDate)) \<longleftrightarrow>
            time \<in> set (generateTimeSlots (strOr (workStartTime (settings st)) ''09:00'')
                                          (strOr (workEndTime (settings st)) ''20:00'')) \<and>
            slotFree tz st selectedDate time"
    by (simp add: updateAvailableTimeSlots_def Let_def)
  have c: "bookedSlots st = [] \<longrightarrow> slotFree tz st selectedDate time"
    by (simp add: slotFree_parsed[OF tm])
  have p13: "hoursMinutes ''13:00'' = Some (13, 0)" by code_simp
  have p1259: "hoursMinutes ''12:59'' = Some (12, 59)" by code_simp
  have d: "minIntervalHours (settings st) = 3 \<and> bookedSlots st = [setHours tz selectedDate 10 0 0 0]
            \<longrightarrow> slotFree tz st selectedDate ''13:00'' \<and> \<not> slotFree tz st selectedDate ''12:59''"
    using ms by (simp add: slotFree_parsed[OF p13] slotFree_parsed[OF p1259] setHours_diff)
  show ?thesis using a b c d by blast
qed

theorem slotFree_spacing_witness:
  "0 < minIntervalHours (settings cappedDay) \<and> hoursMinutes ''12:00'' = Some (12, 0) \<and>
   slotFree 0 cappedDay sunday ''12:00'' \<and>
   ''12:00'' \<in> set (availableTimeSlots (updateAvailableTimeSlots 0 cappedDay sunday))"
proof -
  have p: "0 < minIntervalHours (settings cappedDay)" by code_simp
  have t: "hoursMinutes ''12:00'' = Some (12, 0)" by code_simp
  have g: "''12:00'' \<in> set (generateTimeSlots (strOr (workStartTime (settings cappedDay)) ''09:00'')
                                               (strOr (workEndTime (settings cappedDay)) ''20:00''))"
    by code_simp
  have far: "\<forall>b \<in> set (bookedSlots cappedDay).
               \<not> \<bar>setHours 0 sunday (int 12) (int 0) 0 0 - b\<bar>
                   < minIntervalHours (settings cappedDay) * 3600000"
    by code_simp
  from slotFree_spacing[OF p t, of 0 sunday] g far p t show ?thesis by blast
qed

text \<open>
  Claim C2. For two times of day written \<open>HH:mm\<close>, the first earlier than the second, the
  generator gives a non-empty list whose first element is the start time, whose times
  increase strictly in steps of exactly 60 minutes, and whose last time is the largest one
  not after the end time that is a whole number of hours after the start; the end time is
  itself a slot exactly when it is a whole number of hours after the start.
\<close>

theorem generateTimeSlots_hourly:
  assumes sm: "startMinute < 60" and em: "endMinute < 60"
    and lt: "startHour * 60 + startMinute < endHour * 60 + endMinute"
  shows "\<exists>ms. map slotMinutes (generateTimeSlots (slotText startHour startMinute)
                                                (slotText endHour endMinute)) = map Some ms
           \<and> ms \<noteq> []
           \<and> hd (generateTimeSlots (slotText startHour startMinute) (slotText endHour endMinute))
               = slotText startHour startMinute
           \<and> hd ms = startHour * 60 + startMinute
           \<and> sorted_wrt (<) ms
           \<and> (\<forall>i. Suc i < length ms \<longrightarrow> ms ! Suc i = ms ! i + 60)
           \<and> last ms \<le> endHour * 60 + endMinute
           \<and> (\<exists>k. last ms = startHour * 60 + startMinute + 60 * k)
           \<and> (\<forall>k. startHour * 60 + startMinute + 60 * k \<le> endHour * 60 + endMinute
                  \<longrightarrow> startHour * 60 + startMinute + 60 * k \<le> last ms)
           \<and> (slotText endHour endMinute
                 \<in> set (generateTimeSlots (slotText startHour startMinute) (slotText endHour endMinute))
               \<longleftrightarrow> 60 dvd (endHour * 60 + endMinute - (startHour * 60 + startMinute)))"
proof -
  define S where "S = startHour * 60 + startMinute"
  define E where "E = endHour * 60 + endMinute"
  define q where "q = (E - S) div 60"
  define ms where "ms = map (\<lambda>k. S + 60 * k) [0 ..< Suc q]"
  define slots where "slots = generateTimeSlots (slotText startHour startMinute) (slotText endHour endMinute)"
  have le: "S \<le> E" using lt by (simp add: S_def E_def)
  have cnt: "slotCount S E = Suc q" using le by (simp add: slotCount_def q_def)
  have slots_eq: "slots = map (\<lambda>k. slotText ((S + 60 * k) div 60) ((S + 60 * k) mod 60)) [0 ..< Suc q]"
    unfolding slots_def generateTimeSlots_eq S_def[symmetric] E_def[symmetric] cnt ..
  have c1: "map slotMinutes slots = map Some ms"
    unfolding slots_eq ms_def by (simp add: slotMinutes_slotText del: upt_Suc)
  have c2: "ms \<noteq> []" by (simp add: ms_def)
  have "hd slots = slotText (S div 60) (S mod 60)"
    unfolding slots_eq by (simp add: hd_map upt_conv_Cons del: upt_Suc)
  then have c3: "hd slots = slotText startHour startMinute"
    using sm by (simp add: S_def)
  have c4: "hd ms = S" unfolding ms_def by (simp add: hd_map upt_conv_Cons del: upt_Suc)
  have c5: "sorted_wrt (<) ms" unfolding ms_def by (rule hourly_sorted)
  have c6: "\<forall>i. Suc i < length ms \<longrightarrow> ms ! Suc i = ms ! i + 60"
    unfolding ms_def by (simp add: hourly_nth del: upt_Suc)
  have lst: "last ms = S + 60 * q" unfolding ms_def by (rule hourly_last)
  have c7: "last ms \<le> E" unfolding lst q_def by (rule div60_bound[OF le])
  have c8: "\<exists>k. last ms = S + 60 * k" using lst by blast
  have c9: "\<forall>k. S + 60 * k \<le> E \<longrightarrow> S + 60 * k \<le> last ms"
    unfolding lst q_def using div60_max by simp
  have c10: "slotText endHour endMinute \<in> set slots \<longleftrightarrow> 60 dvd (E - S)"
  proof
    assume "slotText endHour endMinute \<in> set slots"
    then obtain k where "slotText ((S + 60 * k) div 60) ((S + 60 * k) mod 60) = slotText endHour endMinute"
      unfolding slots_eq by auto
    from slotText_split[OF this em] have "S + 60 * k = E" by (simp add: E_def)
    then have "E - S = 60 * k" by simp
    then show "60 dvd (E - S)" by simp
  next
    assume "60 dvd (E - S)"
    then have "60 * q = E - S" unfolding q_def by simp
    with le have "S + 60 * q = E" by simp
    then have "slotText ((S + 60 * q) div 60) ((S + 60 * q) mod 60) = slotText endHour endMinute"
      using em by (simp add: E_def)
    moreover have "q \<in> set [0 ..< Suc q]" by simp
    ultimately show "slotText endHour endMinute \<in> set slots"
      unfolding slots_eq set_map by (metis (no_types, lifting) image_eqI)
  qed
  show ?thesis
    apply (rule exI[of _ ms])
    using c1 c2 c3 c4 c5 c6 c7 c8 c9 c10
    unfolding slots_def S_def E_def by blast
qed

theorem generateTimeSlots_hourly_witness:
  "(0::nat) < 60 \<and> (30::nat) < 60 \<and> (9::nat) * 60 + 0 < 12 * 60 + 30 \<and>
   generateTimeSlots ''09:00'' ''12:30'' = [''09:00'', ''10:00'', ''11:00'', ''12:00''] \<and>
   hd (generateTimeSlots ''09:00'' ''12:30'') = ''09:00'' \<and>
   ''12:30'' \<notin> set (generateTimeSlots ''09:00'' ''12:30'')"
proof -
  have s: "slotText 9 0 = ''09:00''" by code_simp
  have e: "slotText 12 30 = ''12:30''" by code_simp
  have h1: "(0::nat) < 60" by simp
  have h2: "(30::nat) < 60" by simp
  have h3: "(9::nat) * 60 + 0 < 12 * 60 + 30" by simp
  have v: "generateTimeSlots ''09:00'' ''12:30'' = [''09:00'', ''10:00'', ''11:00'', ''12:00'']"
    by code_simp
  have nd: "\<not> 60 dvd ((12::nat) * 60 + 30 - (9 * 60 + 0))" by simp
  from generateTimeSlots_hourly[OF h1 h2 h3] obtain ms where
    "hd (generateTimeSlots (slotText 9 0) (slotText 12 30)) = slotText 9 0"
    "slotText 12 30 \<in> set (generateTimeSlots (slotText 9 0) (slotText 12 30))
       \<longleftrightarrow> 60 dvd ((12::nat) * 60 + 30 - (9 * 60 + 0))"
    by blast
  then show ?thesis using v nd h1 h2 h3 unfolding s e by blast
qed

text \<open>
  Claim C3. \<open>isDateDisabled\<close> is true exactly when at least one of the five rules holds: the
  date is before today, its weekday is disabled, its year-month-day text is listed, a cap is
  set and reached by the bookings of that calendar day, or no generated slot of the date is
  available. Checking the five rules in any order, stopping at the first that holds, gives
  the same answer. The weekday and the year-month-day text of the rules are computed from
  the day number and the calendar, not by \<open>getDay\<close> and \<open>formatDateToYYYYMMDD\<close>; with
  Sundays closed the Sunday and the Sunday a week later are disabled and the Monday is not,
  and with 2025-11-02 listed that date is disabled and the next day and the next Sunday are
  not.
\<close>

theorem isDateDisabled_five_rules:
  "isDateDisabled tz now st date =
     (rulePast tz now st date \<or> ruleWeekday tz now st date \<or> ruleListed tz now st date \<or>
      ruleCapacity tz now st date \<or> ruleNoSlots tz now st date)
   \<and> (\<forall>rules. mset rules = mset [rulePast, ruleWeekday, ruleListed, ruleCapacity, ruleNoSlots]
        \<longrightarrow> firstHolds rules tz now st date = isDateDisabled tz now st date)"
proof -
  have "firstHolds rules tz now st date = isDateDisabled tz now st date"
    if "mset rules = mset [rulePast, ruleWeekday, ruleListed, ruleCapacity, ruleNoSlots]" for rules
  proof -
    from that have "set rules = set [rulePast, ruleWeekday, ruleListed, ruleCapacity, ruleNoSlots]"
      by (rule mset_eq_setD)
    then show ?thesis
      unfolding firstHolds_iff isDateDisabled_rules by simp
  qed
  then show ?thesis using isDateDisabled_rules by blast
qed

theorem isDateDisabled_five_rules_witness:
  "mset [ruleNoSlots, ruleCapacity, ruleListed, ruleWeekday, rulePast]
     = mset [rulePast, ruleWeekday, ruleListed, ruleCapacity, ruleNoSlots]
   \<and> firstHolds [ruleNoSlots, ruleCapacity, ruleListed, ruleWeekday, rulePast] 0 sunday spacedDay sunday
   \<and> isDateDisabled 0 sunday spacedDay sunday
   \<and> \<not> isDateDisabled 0 sunday initialApp sunday
   \<and> disabledWeekdays (settings closedSundays) = [0]
   \<and> isDateDisabled 0 sunday closedSundays sunday
   \<and> \<not> isDateDisabled 0 sunday closedSundays (sunday + msPerDay)
   \<and> isDateDisabled 0 sunday closedSundays (sunday + 7 * msPerDay + 13 * hour)
   \<and> disabledDates (settings closedDate) = [''2025-11-02'']
   \<and> isDateDisabled 0 sunday closedDate (sunday + 13 * hour)
   \<and> \<not> isDateDisabled 0 sunday closedDate (sunday + msPerDay)
   \<and> \<not> isDateDisabled 0 sunday closedDate (sunday + 7 * msPerDay)"
proof -
  have m: "mset [ruleNoSlots, ruleCapacity, ruleListed, ruleWeekday, rulePast]
     = mset [rulePast, ruleWeekday, ruleListed, ruleCapacity, ruleNoSlots]"
    by (simp add: add_mset_commute)
  have a: "ruleNoSlots 0 sunday spacedDay sunday" by code_simp
  have b: "\<not> (rulePast 0 sunday initialApp sunday \<or> ruleWeekday 0 sunday initialApp sunday \<or>
      ruleListed 0 sunday initialApp sunday \<or> ruleCapacity 0 sunday initialApp sunday \<or>
      ruleNoSlots 0 sunday initialApp sunday)" by code_simp
  have w0: "disabledWeekdays (settings closedSundays) = [0]" by code_simp
  have w1: "ruleWeekday 0 sunday closedSundays sunday" by code_simp
  have w2: "\<not> (rulePast 0 sunday closedSundays (sunday + msPerDay) \<or>
      ruleWeekday 0 sunday closedSundays (sunday + msPerDay) \<or>
      ruleListed 0 sunday closedSundays (sunday + msPerDay) \<or>
      ruleCapacity 0 sunday closedSundays (sunday + msPerDay) \<or>
      ruleNoSlots 0 sunday closedSundays (sunday + msPerDay))" by code_simp
  have w3: "ruleWeekday 0 sunday closedSundays (sunday + 7 * msPerDay + 13 * hour)" by code_simp
  have d0: "disabledDates (settings closedDate) = [''2025-11-02'']" by code_simp
  have d1: "ruleListed 0 sunday closedDate (sunday + 13 * hour)" by code_simp
  have d2: "\<not> (rulePast 0 sunday closedDate (sunday + msPerDay) \<or>
      ruleWeekday 0 sunday closedDate (sunday + msPerDay) \<or>
      ruleListed 0 sunday closedDate (sunday + msPerDay) \<or>
      ruleCapacity 0 sunday closedDate (sunday + msPerDay) \<or>
      ruleNoSlots 0 sunday closedDate (sunday + msPerDay))" by code_simp
  have d3: "\<not> (rulePast 0 sunday closedDate (sunday + 7 * msPerDay) \<or>
      ruleWeekday 0 sunday closedDate (sunday + 7 * msPerDay) \<or>
      ruleListed 0 sunday closedDate (sunday + 7 * msPerDay) \<or>
      ruleCapacity 0 sunday closedDate (sunday + 7 * msPerDay) \<or>
      ruleNoSlots 0 sunday closedDate (sunday + 7 * msPerDay))" by code_simp
  have p1: "firstHolds [ruleNoSlots, ruleCapacity, ruleListed, ruleWeekday, rulePast] 0 sunday spacedDay sunday
            \<and> isDateDisabled 0 sunday spacedDay sunday"
    using isDateDisabled_five_rules[of 0 sunday spacedDay sunday] m a by metis
  have p2: "\<not> isDateDisabled 0 sunday initialApp sunday"
    using isDateDisabled_five_rules[of 0 sunday initialApp sunday] b by blast
  have p3: "isDateDisabled 0 sunday closedSundays sunday"
    using isDateDisabled_five_rules[of 0 sunday closedSundays sunday] w1 by blast
  have p4: "\<not> isDateDisabled 0 sunday closedSundays (sunday + msPerDay)"
    using isDateDisabled_five_rules[of 0 sunday closedSundays "sunday + msPerDay"] w2 by blast
  have p5: "isDateDisabled 0 sunday closedSundays (sunday + 7 * msPerDay + 13 * hour)"
    using isDateDisabled_five_rules[of 0 sunday closedSundays "sunday + 7 * msPerDay + 13 * hour"] w3
    by blast
  have p6: "isDateDisabled 0 sunday closedDate (sunday + 13 * hour)"
    using isDateDisabled_five_rules[of 0 sunday closedDate "sunday + 13 * hour"] d1 by blast
  have p7: "\<not> isDateDisabled 0 sunday closedDate (sunday + msPerDay)"
    using isDateDisabled_five_rules[of 0 sunday closedDate "sunday + msPerDay"] d2 by blast
  have p8: "\<not> isDateDisabled 0 sunday closedDate (sunday + 7 * msPerDay)"
    using isDateDisabled_five_rules[of 0 sunday closedDate "sunday + 7 * msPerDay"] d3 by blast
  show ?thesis using m p1 p2 w0 p3 p4 p5 d0 p6 p7 p8 by blast
qed

text \<open>
  Claim C4, as stated: no date has the day-capacity check true and the no-slots-left check
  false. It fails: with a cap of one, an interval of 3 hours and a single booking at 09:00,
  the check of the cap is true for that day while the slots from 12:00 on are still available.
\<close>

theorem cap_reached_with_free_slot:
  "maxBookingsPerDay (settings cappedDay) = Some 1 \<and>
   bookedSlots cappedDay = [sunday + 9 * hour] \<and>
   ruleCapacity 0 sunday cappedDay sunday \<and>
   \<not> ruleNoSlots 0 sunday cappedDay sunday \<and>
   slotFree 0 cappedDay sunday ''12:00'' \<and>
   ''12:00'' \<in> set (availableTimeSlots (updateAvailableTimeSlots 0 cappedDay sunday))"
  by code_simp

text \<open>
  Claim C4, amended. A date for which the day-capacity check is true is disabled whether or
  not the no-slots-left check is true, and the two checks can disagree in both directions:
  a date at its cap can still have an available slot under the spacing rule, and a date
  under its cap can have none.
\<close>

theorem capacity_disables_regardless:
  "(ruleCapacity tz now st date \<longrightarrow> isDateDisabled tz now st date)
   \<and> (ruleCapacity 0 sunday cappedDay sunday \<and> \<not> ruleNoSlots 0 sunday cappedDay sunday)
   \<and> (\<not> ruleCapacity 0 sunday spacedDay sunday \<and> ruleNoSlots 0 sunday spacedDay sunday)"
proof -
  have a: "ruleCapacity 0 sunday cappedDay sunday \<and> \<not> ruleNoSlots 0 sunday cappedDay sunday"
    by code_simp
  have b: "\<not> ruleCapacity 0 sunday spacedDay sunday \<and> ruleNoSlots 0 sunday spacedDay sunday"
    by code_simp
  show ?thesis using a b by (simp add: isDateDisabled_rules)
qed

theorem capacity_disables_regardless_witness:
  "ruleCapacity 0 sunday cappedDay sunday \<and> isDateDisabled 0 sunday cappedDay sunday"
  using capacity_disables_regardless[of 0 sunday cappedDay sunday] by blast

text \<open>
  Claim C5. Whatever the edge function does (it rejects, or resolves with an error, with a
  body that carries an error, with a body that reports success, or with anything else),
  \<open>sendSMS\<close> returns and does not throw, and its result is either a success without an error
  text or a failure with an error text.
\<close>

theorem sendSMS_never_throws:
  "\<exists>r. sendSMS invoke phoneArg message = Inr r \<and>
       (success r \<longrightarrow> error r = None) \<and>
       (\<not> success r \<longrightarrow> (\<exists>text. error r = Some text))"
proof (cases "invoke (formattedPhone phoneArg) message")
  case (Rejected e)
  then show ?thesis by (simp add: sendSMS_def sendSMS_try_def)
next
  case (Resolved d err)
  show ?thesis
  proof (cases err)
    case (Some msg)
    with Resolved show ?thesis by (simp add: sendSMS_def sendSMS_try_def)
  next
    case None
    note noErr = this
    show ?thesis
    proof (cases d)
      case None
      with Resolved noErr show ?thesis by (simp add: sendSMS_def sendSMS_try_def)
    next
      case (Some body)
      have "\<exists>text. orStr (orStr (data_details body) (data_error body)) (Some ''Failed to send SMS'') = Some text"
        by (auto simp: orStr_def truthyStr_def split: option.splits)
      with Resolved noErr Some show ?thesis
        by (auto simp: sendSMS_def sendSMS_try_def)
    qed
  qed
qed

theorem sendSMS_never_throws_witness:
  "\<exists>r. sendSMS unreachable ''050-123 4567'' ''hello'' = Inr r \<and> \<not> success r \<and>
       error r = Some ''Failed to fetch''"
proof -
  obtain r where r: "sendSMS unreachable ''050-123 4567'' ''hello'' = Inr r"
    using sendSMS_never_throws by blast
  have "sendSMS unreachable ''050-123 4567'' ''hello'' =
          Inr \<lparr>success = False, error = Some ''Failed to fetch''\<rparr>"
    by (simp add: sendSMS_def sendSMS_try_def unreachable_def)
  with r have "r = \<lparr>success = False, error = Some ''Failed to fetch''\<rparr>" by simp
  then have "\<not> success r \<and> error r = Some ''Failed to fetch''" by simp
  with r show ?thesis by blast
qed

text \<open>
  Claim C6. When the form has a date and a time, the insert succeeds, messages are enabled
  and the dispatch fails (the sender throws, or returns a result that is no success),
  \<open>handleSubmit\<close> leaves the new row in the table and removes none, resets the form,
  refreshes the booked slots from the table, shows the success toast followed by one warning
  toast and no error toast, and ends with \<open>isSubmitting\<close> false.
\<close>

theorem handleSubmit_sms_failure_keeps_booking:
  assumes day: "appointmentDate (formData st) = Some appointmentDay"
    and tm: "hoursMinutes (appointmentTime (formData st)) = Some (hours, minutes)"
    and ins: "insertResult e = Inserted rowId number"
    and enabled: "sendSMSEnabled (settings st)"
    and fails: "smsFails (sms (phone (formData st))
                  (smsMessage e (formData st) (strOr number (take 8 rowId))
                     (setHours tz appointmentDay (int hours) (int minutes) 0 0)))"
  shows "bookings (handleSubmit tz sms e st) =
           bookings st @ [newBooking (formData st)
                            (setHours tz appointmentDay (int hours) (int minutes) 0 0) rowId number]
       \<and> formData (handleSubmit tz sms e st) = emptyForm
       \<and> (fetchReturnsData e \<longrightarrow>
            bookedSlots (handleSubmit tz sms e st) =
              map appointment_date (filter (\<lambda>b. deleted_at b = None) (bookings (handleSubmit tz sms e st))))
       \<and> (\<exists>detail. toasts (handleSubmit tz sms e st) =
              toasts st @ [ToastSuccess (translate e ''bookingSuccess'') (strOr number (take 8 rowId)),
                           ToastWarning (translate e ''smsError'') detail])
       \<and> \<not> isSubmitting (handleSubmit tz sms e st)"
proof -
  define f where "f = formData st"
  define at where "at = setHours tz appointmentDay (int hours) (int minutes) 0 0"
  define bn where "bn = strOr number (take 8 rowId)"
  define st2 where "st2 = addToast (ToastSuccess (translate e ''bookingSuccess'') bn)
     (st\<lparr>isSubmitting := True, bookings := bookings st @ [newBooking f at rowId number]\<rparr>)"
  have ne: "appointmentTime (formData st) \<noteq> []"
    using tm hoursMinutes_empty by auto
  have fails': "smsFails (sms (phone f) (smsMessage e f bn at))"
    using fails by (simp add: f_def at_def bn_def)
  from notifyCustomer_fails[where sms=sms and e=e and f=f and bookingNumber=bn
        and appointmentDateTime=at and st=st2] fails' obtain detail where
    nc: "notifyCustomer sms e f bn at st2 = st2\<lparr>toasts := toasts st2 @ [ToastWarning (translate e ''smsError'') detail]\<rparr>"
    by blast
  have "handleSubmit_try tz sms e appointmentDay (st\<lparr>isSubmitting := True\<rparr>) =
          Inr (fetchBookedSlots e ((notifyCustomer sms e f bn at st2)\<lparr>formData := emptyForm\<rparr>))"
    using tm ins enabled
    by (simp add: handleSubmit_try_def Let_def f_def at_def bn_def st2_def addToast_def)
  then have hs: "handleSubmit tz sms e st =
     (fetchBookedSlots e ((st2\<lparr>toasts := toasts st2 @ [ToastWarning (translate e ''smsError'') detail]\<rparr>)\<lparr>formData := emptyForm\<rparr>))\<lparr>isSubmitting := False\<rparr>"
    using day ne by (simp add: handleSubmit_def Let_def nc)
  show ?thesis
    unfolding hs
    by (simp add: fetchBookedSlots_def st2_def addToast_def f_def at_def bn_def)
qed

theorem handleSubmit_sms_failure_keeps_booking_witness:
  "appointmentDate (formData filledApp) = Some sunday
   \<and> hoursMinutes (appointmentTime (formData filledApp)) = Some (12, 0)
   \<and> insertResult acceptingStore = Inserted ''4f2c9a1e-77aa'' ''BK-20251102-0001''
   \<and> sendSMSEnabled (settings filledApp)
   \<and> smsFails (sendSMS unreachable (phone (formData filledApp))
        (smsMessage acceptingStore (formData filledApp)
           (strOr ''BK-20251102-0001'' (take 8 ''4f2c9a1e-77aa''))
           (setHours 0 sunday (int 12) (int 0) 0 0)))
   \<and> bookings (handleSubmit 0 (sendSMS unreachable) acceptingStore filledApp) =
       bookings filledApp @ [newBooking (formData filledApp)
                               (setHours 0 sunday (int 12) (int 0) 0 0)
                               ''4f2c9a1e-77aa'' ''BK-20251102-0001'']
   \<and> formData (handleSubmit 0 (sendSMS unreachable) acceptingStore filledApp) = emptyForm
   \<and> \<not> isSubmitting (handleSubmit 0 (sendSMS unreachable) acceptingStore filledApp)"
proof -
  have h1: "appointmentDate (formData filledApp) = Some sunday"
    by (simp add: filledApp_def initialApp_def)
  have h2: "hoursMinutes (appointmentTime (formData filledApp)) = Some (12, 0)"
    by code_simp
  have h3: "insertResult acceptingStore = Inserted ''4f2c9a1e-77aa'' ''BK-20251102-0001''"
    by (simp add: acceptingStore_def)
  have h4: "sendSMSEnabled (settings filledApp)"
    by (simp add: filledApp_def initialApp_def defaultSettings_def)
  have h5: "smsFails (sendSMS unreachable (phone (formData filledApp))
        (smsMessage acceptingStore (formData filledApp)
           (strOr ''BK-20251102-0001'' (take 8 ''4f2c9a1e-77aa''))
           (setHours 0 sunday (int 12) (int 0) 0 0)))"
    by (simp add: smsFails_def sendSMS_def sendSMS_try_def unreachable_def)
  from handleSubmit_sms_failure_keeps_booking[where sms="sendSMS unreachable" and tz=0
         and st=filledApp and e=acceptingStore, OF h1 h2 h3 h4 h5] h1 h2 h3 h4 h5
  show ?thesis by blast
qed

text \<open>
  Claim C7. The number that \<open>sendSMS\<close> puts in the request starts with \<open>+\<close> and all its
  other characters are decimal digits, and the edge function is called with that number.
\<close>

theorem formattedPhone_form:
  "formattedPhone phoneArg \<noteq> [] \<and> hd (formattedPhone phoneArg) = CHR ''+'' \<and>
   list_all isDigit (tl (formattedPhone phoneArg)) \<and>
   (case sendSMS_try invoke phoneArg message of
      Inl e \<Rightarrow> invoke (formattedPhone phoneArg) message = Rejected e
    | Inr r \<Rightarrow> (\<exists>d err. invoke (formattedPhone phoneArg) message = Resolved d err))"
  by (auto simp: formattedPhone_eq list_all_iff sendSMS_try_def
           split: invoked.splits sum.splits option.splits)

text \<open>
  Claim C8. When the start time is later than the end time, the generator gives no slot.
\<close>

theorem generateTimeSlots_empty:
  "hoursMinutes startTime = Some (startHour, startMinute) \<Longrightarrow>
   hoursMinutes endTime = Some (endHour, endMinute) \<Longrightarrow>
   endHour * 60 + endMinute < startHour * 60 + startMinute \<Longrightarrow>
   generateTimeSlots startTime endTime = []"
  by (simp add: generateTimeSlots_def slotLoop_eq slotCount_def)

theorem generateTimeSlots_empty_witness:
  "hoursMinutes ''20:00'' = Some (20, 0) \<and> hoursMinutes ''09:00'' = Some (9, 0) \<and>
   (9::nat) * 60 + 0 < 20 * 60 + 0 \<and> generateTimeSlots ''20:00'' ''09:00'' = []"
proof -
  have a: "hoursMinutes ''20:00'' = Some (20, 0)" by code_simp
  have b: "hoursMinutes ''09:00'' = Some (9, 0)" by code_simp
  have c: "(9::nat) * 60 + 0 < 20 * 60 + 0" by simp
  show ?thesis using a b c generateTimeSlots_empty[OF a b c] by simp
qed

text \<open>
  Claim C9. The number in the request is always \<open>+\<close> followed by the decimal digits of the
  input in their order: the test whether the filtered text starts with \<open>+\<close> never finds
  one, so the \<open>+\<close> is always prepended; a \<open>+\<close> at the start of the input is deleted by
  the filter and written again; an input without digits gives the text \<open>+\<close> alone.
\<close>

theorem formattedPhone_plus_digits:
  "formattedPhone phoneArg = CHR ''+'' # filter isDigit phoneArg \<and>
   \<not> startsWith (deleteAll nonDigit phoneArg) ''+'' \<and>
   formattedPhone (CHR ''+'' # phoneArg) = formattedPhone phoneArg \<and>
   ((\<forall>c \<in> set phoneArg. \<not> isDigit c) \<longrightarrow> formattedPhone phoneArg = ''+'')"
proof -
  have "(\<forall>c \<in> set phoneArg. \<not> isDigit c) \<longrightarrow> filter isDigit phoneArg = []"
    by (simp add: filter_empty_conv)
  then show ?thesis
    by (simp add: formattedPhone_eq deleteAll_nonDigit guard_never_false plus_not_digit)
qed

theorem formattedPhone_plus_digits_witness:
  "filter isDigit ''n/a'' = [] \<and> formattedPhone ''n/a'' = ''+'' \<and>
   formattedPhone ''+972 (50) 123-4567'' = ''+972501234567''"
proof -
  have a: "\<forall>c \<in> set ''n/a''. \<not> isDigit c" by code_simp
  have b: "filter isDigit ''+972 (50) 123-4567'' = ''972501234567''" by code_simp
  have c: "filter isDigit ''n/a'' = []" by code_simp
  from formattedPhone_plus_digits[of "''n/a''"] a
  have "formattedPhone ''n/a'' = ''+''" by blast
  moreover from formattedPhone_plus_digits[of "''+972 (50) 123-4567''"] b
  have "formattedPhone ''+972 (50) 123-4567'' = ''+972501234567''" by simp
  ultimately show ?thesis using c by simp
qed

text \<open>
  Claim C10. The availability of a slot depends on instants, not on the calendar day of the
  booking. With an interval of 3 hours, a booking on Saturday at 23:00 makes the generated
  slot 01:00 of the Sunday unavailable. With an interval of 24 hours, a booking on Saturday
  at 20:00 and one on Monday at 09:00 disable the Sunday between them, on which there is no
  booking and to which none of the first four rules applies.
\<close>

theorem neighbouring_day_blocks:
  "bookedSlots lateSaturday = [sunday - 1 * hour]
   \<and> localDay 0 (sunday - 1 * hour) = localDay 0 sunday - 1
   \<and> ''01:00'' \<in> set (generateTimeSlots (workStartTime (settings lateSaturday))
                                          (workEndTime (settings lateSaturday)))
   \<and> \<not> slotFree 0 lateSaturday sunday ''01:00''
   \<and> ''01:00'' \<notin> set (availableTimeSlots (updateAvailableTimeSlots 0 lateSaturday sunday))
   \<and> map (localDay 0) (bookedSlots bothNeighbours) = [localDay 0 sunday - 1, localDay 0 sunday + 1]
   \<and> isDateDisabled 0 sunday bothNeighbours sunday
   \<and> \<not> rulePast 0 sunday bothNeighbours sunday
   \<and> \<not> ruleWeekday 0 sunday bothNeighbours sunday
   \<and> \<not> ruleListed 0 sunday bothNeighbours sunday
   \<and> \<not> ruleCapacity 0 sunday bothNeighbours sunday"
  by code_simp

end
